theory Spec2Isabelle
  imports Complex_Main "HOL-Library.Sublist"
begin

section \<open>Health scoring: \<open>calculateAsthmaControlScore\<close> (src/scripts/utils/api.js)\<close>

text \<open>
  A symptom row as the scoring function reads it: the integer \<open>severity\<close> column and the
  \<open>recorded_at\<close> timestamp, here already parsed by \<open>new Date(...)\<close> into milliseconds
  since the epoch. The clock reading \<open>new Date()\<close> is the parameter \<open>now\<close>, in the same unit.
  The \<open>medications\<close> argument is a list of medication rows.
\<close>

record symptom =
  severity :: int
  recorded_at :: int

record medication =
  medication_name :: string
  taken_at :: int

record control_score =
  score :: int
  level :: string
  recommendations :: "string list"

text \<open>
  \<open>(new Date() - new Date(s.recorded_at)) / (1000 * 60 * 60 * 24)\<close>. The quotient is a
  real number here; the double of the source compares with 7 in the same way, because a whole
  number of milliseconds above seven days is above it by far more than the rounding error.
\<close>

definition daysDiff :: "int \<Rightarrow> symptom \<Rightarrow> real" where
  "daysDiff now s = real_of_int (now - recorded_at s) / (1000 * 60 * 60 * 24)"

definition recentSymptoms :: "int \<Rightarrow> symptom list \<Rightarrow> symptom list" where
  "recentSymptoms now symptoms = filter (\<lambda>s. daysDiff now s \<le> 7) symptoms"

text \<open>The \<open>forEach\<close> that subtracts \<open>symptom.severity * 5\<close> from \<open>totalScore\<close>.\<close>

definition deductPoints :: "symptom list \<Rightarrow> int \<Rightarrow> int" where
  "deductPoints recent totalScore =
     fold (\<lambda>symptom acc. acc - severity symptom * 5) recent totalScore"

definition calculateAsthmaControlScore ::
  "int \<Rightarrow> symptom list \<Rightarrow> medication list \<Rightarrow> control_score" where
  "calculateAsthmaControlScore now symptoms medications =
     (if length symptoms = 0 then
        \<lparr>score = 100, level = ''Well Controlled'',
         recommendations = [''Continue current management plan'',
                            ''Regular check-ups with healthcare provider'']\<rparr>
      else
        let totalScore = deductPoints (recentSymptoms now symptoms) 100 in
        if totalScore \<ge> 80 then
          \<lparr>score = max 0 totalScore, level = ''Well Controlled'',
           recommendations = [''Continue current management plan'',
                              ''Monitor for any changes in symptoms'',
                              ''Regular check-ups with healthcare provider'']\<rparr>
        else if totalScore \<ge> 60 then
          \<lparr>score = max 0 totalScore, level = ''Partly Controlled'',
           recommendations = [''Review medication adherence'',
                              ''Identify and avoid triggers'',
                              ''Consider adjusting treatment plan with doctor'']\<rparr>
        else
          \<lparr>score = max 0 totalScore, level = ''Poorly Controlled'',
           recommendations = [''Schedule urgent appointment with healthcare provider'',
                              ''Review and update asthma action plan'',
                              ''Ensure rescue medications are accessible'',
                              ''Consider step-up therapy'']\<rparr>)"

text \<open>Seven days in milliseconds, and the control level the spec assigns to a score.\<close>

definition sevenDaysMs :: int where
  "sevenDaysMs = 7 * (1000 * 60 * 60 * 24)"

definition classify :: "int \<Rightarrow> string" where
  "classify s =
     (if s \<ge> 80 then ''Well Controlled''
      else if s \<ge> 60 then ''Partly Controlled''
      else ''Poorly Controlled'')"

section \<open>Mock chat responder: \<open>simulateAIResponse\<close>, \<open>sendChatMessage\<close> (src/scripts/utils/api.js)\<close>

text \<open>
  Strings are lists of 8-bit characters. \<open>toLowerCase\<close> maps the letters A to Z to a to z
  and leaves every other character as it is; all keywords of the responder are ASCII.
  \<open>includes_str s k\<close> is \<open>s.includes(k)\<close>: \<open>k\<close> occurs in \<open>s\<close> as a contiguous run.
\<close>

definition toLowerChar :: "char \<Rightarrow> char" where
  "toLowerChar c =
     (let n = (of_char c :: nat) in if 65 \<le> n \<and> n \<le> 90 then char_of (n + 32) else c)"

definition toLowerCase :: "string \<Rightarrow> string" where
  "toLowerCase s = map toLowerChar s"

definition includes_str :: "string \<Rightarrow> string \<Rightarrow> bool" where
  "includes_str s searchString = sublist searchString s"

text \<open>
  The eight fixed response texts. The emergency text starts with the character U+1F6A8,
  written here as its four UTF-8 bytes.
\<close>

definition emergencyResponse :: string where
  "emergencyResponse = [CHR 0xF0, CHR 0x9F, CHR 0x9A, CHR 0xA8] @
     '' This sounds like a medical emergency. Please call 911 or your local emergency services immediately. Don't wait - severe breathing difficulties require immediate medical attention.''"

definition medicationResponse :: string where
  "medicationResponse =
     ''For inhaler and medication questions, it's important to follow your doctor's prescribed instructions. If you're experiencing issues with your current medication or need adjustments, please contact your healthcare provider. Never stop or change medications without medical guidance.''"

definition triggerResponse :: string where
  "triggerResponse =
     ''Common asthma triggers include dust mites, pet dander, pollen, smoke, cold air, and strong odors. Keeping a trigger diary can help identify your specific triggers. Consider using air purifiers, regular cleaning, and avoiding known irritants when possible.''"

definition exerciseResponse :: string where
  "exerciseResponse =
     ''Exercise-induced asthma is manageable! Warm up gradually, consider using your rescue inhaler before exercise if recommended by your doctor, and choose activities like swimming which are often better tolerated. Always have your rescue inhaler available during physical activity.''"

definition airQualityResponse :: string where
  "airQualityResponse =
     ''Poor air quality can definitely trigger asthma symptoms. Check daily air quality reports, limit outdoor activities on high pollution days, keep windows closed during poor air quality periods, and consider using air purifiers indoors. Our air quality monitor can help you stay informed!''"

definition stressResponse :: string where
  "stressResponse =
     ''Stress and anxiety can indeed trigger asthma symptoms. Practice relaxation techniques like deep breathing exercises, meditation, or yoga. Maintaining a regular sleep schedule and staying connected with support networks also helps. If stress is a major trigger, consider speaking with a counselor.''"

definition dietResponse :: string where
  "dietResponse =
     ''While food allergies can trigger asthma in some people, maintaining a healthy diet supports overall respiratory health. Foods rich in omega-3 fatty acids, antioxidants, and vitamin D may be beneficial. If you suspect food triggers, keep a food diary and discuss with your healthcare provider.''"

definition defaultResponse :: string where
  "defaultResponse =
     ''Thank you for your question about asthma management. While I can provide general information, it's important to work closely with your healthcare provider for personalized advice. Is there a specific aspect of asthma management you'd like to know more about? I'm here to help with general guidance and support.''"

text \<open>
  \<open>simulateAIResponse\<close>, after its timer has fired: the chain of \<open>if\<close> statements on the
  lower-cased message. The randomised delay before it is not part of the returned value.
\<close>

definition simulateAIResponse :: "string \<Rightarrow> string" where
  "simulateAIResponse message =
     (let lowerMessage = toLowerCase message in
      if includes_str lowerMessage ''emergency'' \<or> includes_str lowerMessage ''can't breathe''
         \<or> includes_str lowerMessage ''severe'' then emergencyResponse
      else if includes_str lowerMessage ''inhaler'' \<or> includes_str lowerMessage ''medication''
        then medicationResponse
      else if includes_str lowerMessage ''trigger'' \<or> includes_str lowerMessage ''allergen''
        then triggerResponse
      else if includes_str lowerMessage ''exercise'' \<or> includes_str lowerMessage ''activity''
        then exerciseResponse
      else if includes_str lowerMessage ''air quality'' \<or> includes_str lowerMessage ''pollution''
        then airQualityResponse
      else if includes_str lowerMessage ''stress'' \<or> includes_str lowerMessage ''anxiety''
        then stressResponse
      else if includes_str lowerMessage ''diet'' \<or> includes_str lowerMessage ''food''
        then dietResponse
      else defaultResponse)"

text \<open>
  The responder as the spec words it: an ordered list of keyword groups, each with its fixed
  response; the first group with a keyword occurring in the lower-cased message answers, and
  the default response is given when no group matches.
\<close>

definition keywordGroups :: "(string list \<times> string) list" where
  "keywordGroups =
     [([''emergency'', ''can't breathe'', ''severe''], emergencyResponse),
      ([''inhaler'', ''medication''], medicationResponse),
      ([''trigger'', ''allergen''], triggerResponse),
      ([''exercise'', ''activity''], exerciseResponse),
      ([''air quality'', ''pollution''], airQualityResponse),
      ([''stress'', ''anxiety''], stressResponse),
      ([''diet'', ''food''], dietResponse)]"

fun firstMatchingGroup :: "string \<Rightarrow> (string list \<times> string) list \<Rightarrow> string" where
  "firstMatchingGroup lowered [] = defaultResponse"
| "firstMatchingGroup lowered ((keywords, response) # groups) =
     (if list_ex (includes_str lowered) keywords then response
      else firstMatchingGroup lowered groups)"

definition respond_spec :: "string \<Rightarrow> string" where
  "respond_spec message = firstMatchingGroup (toLowerCase message) keywordGroups"

text \<open>
  \<open>sendChatMessage(message, context)\<close>. The context is an array of chat messages, as the
  function documents it. The chat history table is a list of rows; \<open>saveChatMessage\<close> reads
  \<open>supabase.auth.getUser()\<close> without awaiting it, so the row's \<open>user_id\<close> is always null, and
  it swallows a failed insert (\<open>insert_ok = False\<close>). With a string message and an array
  context no step of the \<open>try\<close> block raises, so the function returns the response.
\<close>

record chat_message =
  role :: string
  content :: string

record chat_row =
  chat_user_id :: "string option"
  user_message :: string
  ai_response :: string
  chat_created_at :: int

definition systemPrompt :: string where
  "systemPrompt =
     ''You are a helpful AI assistant specializing in asthma and respiratory health. '' @
     [CHR 0x0A] @
     ''        Provide accurate, helpful information while always recommending users consult healthcare professionals for medical advice. '' @
     [CHR 0x0A] @
     ''        Keep responses conversational and supportive. If asked about emergencies, always advise calling emergency services.''"

definition saveChatMessage ::
  "bool \<Rightarrow> int \<Rightarrow> string \<Rightarrow> string \<Rightarrow> chat_row list \<Rightarrow> chat_row list" where
  "saveChatMessage insert_ok now userMessage aiResponse chat_history =
     (if insert_ok then
        chat_history @ [\<lparr>chat_user_id = None, user_message = userMessage,
                          ai_response = aiResponse, chat_created_at = now\<rparr>]
      else chat_history)"

definition sendChatMessage ::
  "bool \<Rightarrow> int \<Rightarrow> chat_row list \<Rightarrow> string \<Rightarrow> chat_message list \<Rightarrow> string \<times> chat_row list" where
  "sendChatMessage insert_ok now chat_history message context =
     (let messages = [\<lparr>role = ''system'', content = systemPrompt\<rparr>] @ context
                       @ [\<lparr>role = ''user'', content = message\<rparr>];
          response = simulateAIResponse message;
          chat_history' = saveChatMessage insert_ok now message response chat_history
      in (response, chat_history'))"


section \<open>Air-quality freshness cache: \<open>checkAirQuality\<close> (src/scripts/utils/api.js)\<close>

text \<open>
  A row of the \<open>air_quality_cache\<close> table with the columns the code reads and writes; the
  payload type is left open. Timestamps are milliseconds since the epoch. The table is a
  list of rows, \<open>db_up\<close> says whether the store answers: a store that does not makes the
  lookup fail, which \<open>getCachedAirQuality\<close> turns into \<open>null\<close>, and makes the insert of
  \<open>cacheAirQuality\<close> a no-op.
\<close>

record 'd cache_row =
  location :: string
  cache_data :: 'd
  cache_created_at :: int

datatype 'r query_result = Found 'r | NoRows | QueryFailed

text \<open>
  \<open>.eq('location', key).order('created_at', {ascending: false}).limit(1).single()\<close>:
  the row of the key with the greatest \<open>created_at\<close> (the earliest such row of the table
  among equals), or the no-rows answer (code PGRST116).
\<close>

fun newest :: "'d cache_row \<Rightarrow> 'd cache_row list \<Rightarrow> 'd cache_row" where
  "newest r [] = r"
| "newest r (x # xs) = newest (if cache_created_at x > cache_created_at r then x else r) xs"

definition selectLatest :: "bool \<Rightarrow> 'd cache_row list \<Rightarrow> string \<Rightarrow> 'd cache_row query_result" where
  "selectLatest db_up table key =
     (if \<not> db_up then QueryFailed
      else case filter (\<lambda>r. location r = key) table of
             [] \<Rightarrow> NoRows
           | r # rs \<Rightarrow> Found (newest r rs))"

definition getCachedAirQuality :: "bool \<Rightarrow> 'd cache_row list \<Rightarrow> string \<Rightarrow> 'd cache_row option" where
  "getCachedAirQuality db_up table loc =
     (case selectLatest db_up table (toLowerCase loc) of
        Found r \<Rightarrow> Some r
      | NoRows \<Rightarrow> None
      | QueryFailed \<Rightarrow> None)"

definition cacheAirQuality ::
  "bool \<Rightarrow> int \<Rightarrow> 'd cache_row list \<Rightarrow> string \<Rightarrow> 'd \<Rightarrow> 'd cache_row list" where
  "cacheAirQuality db_up now table loc payload =
     (if db_up then
        table @ [\<lparr>location = toLowerCase loc, cache_data = payload, cache_created_at = now\<rparr>]
      else table)"

text \<open>
  \<open>isDataFresh(timestamp, minutes)\<close>: \<open>(now - dataTime) / (1000 * 60) < minutes\<close>, the
  quotient taken as a real number (see \<open>daysDiff\<close>).
\<close>

definition isDataFresh :: "int \<Rightarrow> int \<Rightarrow> int \<Rightarrow> bool" where
  "isDataFresh now timestamp minutes =
     (real_of_int (now - timestamp) / (1000 * 60) < real_of_int minutes)"

text \<open>
  What \<open>fetch(url)\<close> gives for a location: the promise rejects, or a response arrives with
  its \<open>ok\<close> flag, its status and its body, \<open>None\<close> when \<open>response.json()\<close> rejects. The
  errors the function can throw are these three.
\<close>

record 'd response =
  ok :: bool
  status :: nat
  json :: "'d option"

datatype 'd fetch_outcome = FetchRejected | Responded "'d response"

datatype failure = NetworkError | AirQualityApiError nat | JsonError

text \<open>
  The result of a call: the value returned or the error thrown, the locations requested from
  the air-quality API during the call, and the table afterwards.
\<close>

record 'd air_quality_result =
  returned :: "failure + 'd"
  requests :: "string list"
  table_after :: "'d cache_row list"

text \<open>The \<open>catch\<close> block: the cached row of the location whatever its age, else rethrow.\<close>

definition airQualityFallback ::
  "bool \<Rightarrow> 'd cache_row list \<Rightarrow> string \<Rightarrow> failure \<Rightarrow> 'd air_quality_result" where
  "airQualityFallback db_up table loc error =
     (case getCachedAirQuality db_up table loc of
        Some fallbackData \<Rightarrow>
          \<lparr>returned = Inr (cache_data fallbackData), requests = [loc], table_after = table\<rparr>
      | None \<Rightarrow> \<lparr>returned = Inl error, requests = [loc], table_after = table\<rparr>)"

text \<open>
  The part of the \<open>try\<close> block after the cache check: fetch, throw on a response that is
  not ok, parse, store the payload in the cache, return it. Every throw lands in the
  \<open>catch\<close> block.
\<close>

definition fetchFreshData ::
  "bool \<Rightarrow> int \<Rightarrow> (string \<Rightarrow> 'd fetch_outcome) \<Rightarrow> 'd cache_row list \<Rightarrow> string
     \<Rightarrow> 'd air_quality_result" where
  "fetchFreshData db_up now fetch table loc =
     (case fetch loc of
        FetchRejected \<Rightarrow> airQualityFallback db_up table loc NetworkError
      | Responded resp \<Rightarrow>
          if \<not> ok resp then airQualityFallback db_up table loc (AirQualityApiError (status resp))
          else case json resp of
                 None \<Rightarrow> airQualityFallback db_up table loc JsonError
               | Some payload \<Rightarrow>
                   \<lparr>returned = Inr payload, requests = [loc],
                    table_after = cacheAirQuality db_up now table loc payload\<rparr>)"

definition checkAirQuality ::
  "bool \<Rightarrow> int \<Rightarrow> (string \<Rightarrow> 'd fetch_outcome) \<Rightarrow> 'd cache_row list \<Rightarrow> string
     \<Rightarrow> 'd air_quality_result" where
  "checkAirQuality db_up now fetch table loc =
     (case getCachedAirQuality db_up table loc of
        Some cachedData \<Rightarrow>
          if isDataFresh now (cache_created_at cachedData) 30
          then \<lparr>returned = Inr (cache_data cachedData), requests = [], table_after = table\<rparr>
          else fetchFreshData db_up now fetch table loc
      | None \<Rightarrow> fetchFreshData db_up now fetch table loc)"

text \<open>The fetch of a location fails: it rejects, answers not ok, or its body does not parse.\<close>

definition fetchFails :: "'d fetch_outcome \<Rightarrow> bool" where
  "fetchFails outcome =
     (case outcome of
        FetchRejected \<Rightarrow> True
      | Responded resp \<Rightarrow> \<not> ok resp \<or> json resp = None)"

definition thrownByFetch :: "'d fetch_outcome \<Rightarrow> failure" where
  "thrownByFetch outcome =
     (case outcome of
        FetchRejected \<Rightarrow> NetworkError
      | Responded resp \<Rightarrow> if \<not> ok resp then AirQualityApiError (status resp) else JsonError)"

definition thirtyMinutesMs :: int where
  "thirtyMinutesMs = 30 * (1000 * 60)"


section \<open>Auth session facade: \<open>AuthManager\<close> (src/scripts/auth/auth.js)\<close>

text \<open>
  The manager's fields, and a log of the observer calls it makes: which callback, with which
  user and which event name. A callback is known by its name and by whether its body throws;
  its body does not call back into the manager. \<open>listening\<close> records that the handler has
  been passed to \<open>supabase.auth.onAuthStateChange\<close>.
\<close>

record auth_user =
  uid :: string
  email :: string

record auth_session =
  session_user :: auth_user
  access_token :: string

record callback =
  cb_name :: string
  cb_throws :: bool

datatype completion = Returned | Raised

datatype getSession_outcome =
  GetSessionRejected | GetSessionError | GetSessionData "auth_session option"

record auth_manager =
  currentUser :: "auth_user option"
  authCallbacks :: "callback list"
  initialized :: bool
  listening :: bool
  invocations :: "(callback \<times> auth_user option \<times> string) list"

text \<open>The constructor's assignments, before \<open>init\<close> resumes after its first \<open>await\<close>.\<close>

definition newAuthManager :: auth_manager where
  "newAuthManager =
     \<lparr>currentUser = None, authCallbacks = [], initialized = False, listening = False,
      invocations = []\<rparr>"

text \<open>\<open>session?.user || null\<close>\<close>

definition userOf :: "auth_session option \<Rightarrow> auth_user option" where
  "userOf session = map_option session_user session"

text \<open>
  \<open>init\<close> once \<open>getSession\<close> has settled: a rejection is caught and leaves the manager
  uninitialised; an error result keeps \<open>currentUser\<close>; otherwise the session's user is
  stored. Then the handler is subscribed and \<open>initialized\<close> is set.
\<close>

definition subscribeAndFinish :: "auth_manager \<Rightarrow> auth_manager" where
  "subscribeAndFinish m = m\<lparr>listening := True, initialized := True\<rparr>"

definition init :: "getSession_outcome \<Rightarrow> auth_manager \<Rightarrow> auth_manager" where
  "init outcome m =
     (case outcome of
        GetSessionRejected \<Rightarrow> m
      | GetSessionError \<Rightarrow> subscribeAndFinish m
      | GetSessionData session \<Rightarrow> subscribeAndFinish (m\<lparr>currentUser := userOf session\<rparr>))"

text \<open>
  The handler given to \<open>supabase.auth.onAuthStateChange\<close>: it stores the user and calls
  every registered callback with the user and the event, each call inside its own
  \<open>try\<close>/\<open>catch\<close>. \<open>deliver\<close> is the identity provider emitting an event: the handler runs
  when it has been subscribed.
\<close>

definition authStateListener :: "string \<Rightarrow> auth_session option \<Rightarrow> auth_manager \<Rightarrow> auth_manager" where
  "authStateListener event session m =
     (let m1 = m\<lparr>currentUser := userOf session\<rparr> in
      m1\<lparr>invocations := invocations m1
            @ map (\<lambda>callback. (callback, currentUser m1, event)) (authCallbacks m1)\<rparr>)"

definition deliver :: "string \<Rightarrow> auth_session option \<Rightarrow> auth_manager \<Rightarrow> auth_manager" where
  "deliver event session m = (if listening m then authStateListener event session m else m)"

text \<open>
  \<open>onAuthStateChange(callback)\<close>: push, then call at once when initialised. The call is not
  guarded, so a throwing callback makes the method raise, after the push and the call.
\<close>

definition onAuthStateChange :: "callback \<Rightarrow> auth_manager \<Rightarrow> completion \<times> auth_manager" where
  "onAuthStateChange callback m =
     (let m1 = m\<lparr>authCallbacks := authCallbacks m @ [callback]\<rparr> in
      if initialized m1 then
        (if cb_throws callback then Raised else Returned,
         m1\<lparr>invocations := invocations m1 @ [(callback, currentUser m1, ''INITIAL_SESSION'')]\<rparr>)
      else (Returned, m1))"

text \<open>\<open>removeAuthStateCallback\<close>: \<open>indexOf\<close> and \<open>splice\<close> drop the first occurrence.\<close>

definition removeAuthStateCallback :: "callback \<Rightarrow> auth_manager \<Rightarrow> auth_manager" where
  "removeAuthStateCallback callback m = m\<lparr>authCallbacks := remove1 callback (authCallbacks m)\<rparr>"

text \<open>A history of the manager after \<open>init\<close>: registrations, removals and delivered events.\<close>

datatype action =
  Register callback | Remove callback | Emit string "auth_session option"

fun step :: "action \<Rightarrow> auth_manager \<Rightarrow> auth_manager" where
  "step (Register callback) m = snd (onAuthStateChange callback m)"
| "step (Remove callback) m = removeAuthStateCallback callback m"
| "step (Emit event session) m = deliver event session m"

definition run :: "action list \<Rightarrow> auth_manager \<Rightarrow> auth_manager" where
  "run history m = fold step history m"


section \<open>Owner-scoped record operations (src/scripts/utils/api.js)\<close>

text \<open>
  JavaScript values as far as the record operations handle them. \<open>getProp\<close> reads a property
  of an argument object (\<open>undefined\<close> when it is absent), \<open>truthy\<close> is the test of an
  \<open>if\<close>, and \<open>orElse a b\<close> is \<open>a || b\<close>.
\<close>

datatype jsval =
  Undefined | Null | JBool bool | Num int | Str string | Arr "jsval list"
  | Obj "(string \<times> jsval) list"

fun getProp :: "jsval \<Rightarrow> string \<Rightarrow> jsval" where
  "getProp (Obj props) k = (case map_of props k of Some v \<Rightarrow> v | None \<Rightarrow> Undefined)"
| "getProp v k = Undefined"

fun truthy :: "jsval \<Rightarrow> bool" where
  "truthy Undefined = False"
| "truthy Null = False"
| "truthy (JBool b) = b"
| "truthy (Num n) = (n \<noteq> 0)"
| "truthy (Str s) = (s \<noteq> [])"
| "truthy (Arr xs) = True"
| "truthy (Obj props) = True"

definition orElse :: "jsval \<Rightarrow> jsval \<Rightarrow> jsval" where
  "orElse a b = (if truthy a then a else b)"

text \<open>
  The query builder of the store client: \<open>supabase.from(t)\<close> followed by a chain of calls,
  each of which returns the query extended. \<open>chain q [f, g]\<close> is \<open>q.f().g()\<close>.
\<close>

datatype verb = SelectRows | InsertRow | UpdateRows | DeleteRows

datatype filter = Eq string jsval | Gte string jsval | Lte string jsval | Lt string jsval

record query =
  q_table :: string
  q_verb :: verb
  q_values :: jsval
  q_filters :: "filter list"
  q_order :: "(string \<times> bool) list"
  q_limit :: "jsval option"
  q_returning :: bool
  q_single :: bool

definition from_q :: "string \<Rightarrow> query" where
  "from_q t =
     \<lparr>q_table = t, q_verb = SelectRows, q_values = Undefined, q_filters = [], q_order = [],
      q_limit = None, q_returning = False, q_single = False\<rparr>"

definition select_q :: "query \<Rightarrow> query" where
  "select_q q = q\<lparr>q_returning := True\<rparr>"

definition insert_q :: "jsval \<Rightarrow> query \<Rightarrow> query" where
  "insert_q row q = q\<lparr>q_verb := InsertRow, q_values := row\<rparr>"

definition update_q :: "jsval \<Rightarrow> query \<Rightarrow> query" where
  "update_q changes q = q\<lparr>q_verb := UpdateRows, q_values := changes\<rparr>"

definition delete_q :: "query \<Rightarrow> query" where
  "delete_q q = q\<lparr>q_verb := DeleteRows\<rparr>"

definition eq_q :: "string \<Rightarrow> jsval \<Rightarrow> query \<Rightarrow> query" where
  "eq_q column v q = q\<lparr>q_filters := q_filters q @ [Eq column v]\<rparr>"

definition gte_q :: "string \<Rightarrow> jsval \<Rightarrow> query \<Rightarrow> query" where
  "gte_q column v q = q\<lparr>q_filters := q_filters q @ [Gte column v]\<rparr>"

definition lte_q :: "string \<Rightarrow> jsval \<Rightarrow> query \<Rightarrow> query" where
  "lte_q column v q = q\<lparr>q_filters := q_filters q @ [Lte column v]\<rparr>"

definition lt_q :: "string \<Rightarrow> jsval \<Rightarrow> query \<Rightarrow> query" where
  "lt_q column v q = q\<lparr>q_filters := q_filters q @ [Lt column v]\<rparr>"

definition order_q :: "string \<Rightarrow> bool \<Rightarrow> query \<Rightarrow> query" where
  "order_q column ascending q = q\<lparr>q_order := q_order q @ [(column, ascending)]\<rparr>"

definition limit_q :: "jsval \<Rightarrow> query \<Rightarrow> query" where
  "limit_q n q = q\<lparr>q_limit := Some n\<rparr>"

definition single_q :: "query \<Rightarrow> query" where
  "single_q q = q\<lparr>q_single := True\<rparr>"

definition chain :: "query \<Rightarrow> (query \<Rightarrow> query) list \<Rightarrow> query" where
  "chain q calls = fold (\<lambda>call acc. call acc) calls q"

text \<open>\<open>if (c) query = query.f(...)\<close>\<close>

definition when_q :: "jsval \<Rightarrow> (query \<Rightarrow> query) \<Rightarrow> query \<Rightarrow> query" where
  "when_q c call q = (if truthy c then call q else q)"

text \<open>
  What reaches the store: a table query, a file upload or a file removal. The store is the
  external collaborator; it answers each request with \<open>{data, error}\<close>. An operation gives
  its result together with the requests it sent, in order.
\<close>

record js_file =
  file_name :: string
  file_size :: int
  file_type :: string

datatype request =
  Query query | StorageUpload string string js_file | StorageRemove string "jsval list"

datatype thrown = JsError string | StoreError string

record reply =
  reply_data :: jsval
  reply_error :: "thrown option"

type_synonym backend = "request \<Rightarrow> reply"

text \<open>
  The result of an operation: the object \<open>{data, error}\<close>, the object \<open>{error}\<close>, a plain
  value, or an exception thrown to the caller.
\<close>

datatype api_result =
  Envelope jsval "thrown option" | ErrorOnly "thrown option" | Value jsval | Rejected thrown

definition notAuthenticated :: thrown where
  "notAuthenticated = JsError ''User not authenticated''"

definition TABLES_USER_PROFILES :: string where "TABLES_USER_PROFILES = ''user_profiles''"
definition TABLES_HEALTH_REPORTS :: string where "TABLES_HEALTH_REPORTS = ''health_reports''"
definition TABLES_APPOINTMENTS :: string where "TABLES_APPOINTMENTS = ''appointments''"
definition TABLES_CHAT_HISTORY :: string where "TABLES_CHAT_HISTORY = ''chat_history''"
definition TABLES_SYMPTOMS :: string where "TABLES_SYMPTOMS = ''symptoms''"
definition TABLES_MEDICATIONS :: string where "TABLES_MEDICATIONS = ''medications''"
definition TABLES_EMERGENCY_CONTACTS :: string where
  "TABLES_EMERGENCY_CONTACTS = ''emergency_contacts''"
definition STORAGE_BUCKETS_HEALTH_REPORTS :: string where
  "STORAGE_BUCKETS_HEALTH_REPORTS = ''health-reports''"

text \<open>
  The two shapes most operations share after the user check. \<open>envelopeOf\<close>: await the
  query, \<open>if (error) throw error\<close>, \<open>return {data, error: null}\<close>, with the \<open>catch\<close> that
  returns \<open>{data: null, error}\<close>. \<open>rowsOf\<close>: await the query, \<open>if (error) throw error\<close>,
  \<open>return data || []\<close>, with the \<open>catch\<close> that throws the error again.
\<close>

definition envelopeOf :: "backend \<Rightarrow> query \<Rightarrow> api_result \<times> request list" where
  "envelopeOf backend q =
     (let r = backend (Query q) in
      case reply_error r of
        Some e \<Rightarrow> (Envelope Null (Some e), [Query q])
      | None \<Rightarrow> (Envelope (reply_data r) None, [Query q]))"

definition rowsOf :: "backend \<Rightarrow> query \<Rightarrow> api_result \<times> request list" where
  "rowsOf backend q =
     (let r = backend (Query q) in
      case reply_error r of
        Some e \<Rightarrow> (Rejected e, [Query q])
      | None \<Rightarrow> (Value (orElse (reply_data r) (Arr [])), [Query q]))"

text \<open>
  In every operation \<open>user\<close> is what \<open>supabase.auth.getUser()\<close> resolved to, \<open>None\<close> for
  \<open>null\<close>; \<open>nowISO\<close> is \<open>new Date().toISOString()\<close>.
\<close>

definition getChatHistory :: "auth_user option \<Rightarrow> backend \<Rightarrow> jsval \<Rightarrow> api_result \<times> request list" where
  "getChatHistory user backend limit =
     (case user of
        None \<Rightarrow> (Value (Arr []), [])
      | Some u \<Rightarrow>
          let q = chain (from_q TABLES_CHAT_HISTORY)
                    [select_q, eq_q ''user_id'' (Str (uid u)), order_q ''created_at'' False,
                     limit_q limit];
              r = backend (Query q)
          in case reply_error r of
               Some e \<Rightarrow> (Value (Arr []), [Query q])
             | None \<Rightarrow> (Value (orElse (reply_data r) (Arr [])), [Query q]))"

text \<open>\<open>file.name.split('.').pop()\<close>: the part of the name after its last dot.\<close>

definition fileExtension :: "string \<Rightarrow> string" where
  "fileExtension name = rev (takeWhile (\<lambda>c. c \<noteq> CHR ''.'') (rev name))"

text \<open>
  \<open>uploadHealthReport\<close>; \<open>stamp\<close> and \<open>rand\<close> are the digits of \<open>Date.now()\<close> and the
  random suffix of the file name, \<open>publicUrlOf\<close> is the storage client's \<open>getPublicUrl\<close>.
\<close>

definition uploadHealthReport ::
  "auth_user option \<Rightarrow> string \<Rightarrow> string \<Rightarrow> string \<Rightarrow> (string \<Rightarrow> string) \<Rightarrow> backend
     \<Rightarrow> js_file \<Rightarrow> jsval \<Rightarrow> api_result \<times> request list" where
  "uploadHealthReport user stamp rand nowISO publicUrlOf backend file metadata =
     (case user of
        None \<Rightarrow> (Envelope Null (Some notAuthenticated), [])
      | Some u \<Rightarrow>
          let fileName = uid u @ ''_'' @ stamp @ ''_'' @ rand @ ''.''
                           @ fileExtension (file_name file);
              upload = StorageUpload STORAGE_BUCKETS_HEALTH_REPORTS fileName file
          in case reply_error (backend upload) of
               Some uploadError \<Rightarrow> (Envelope Null (Some uploadError), [upload])
             | None \<Rightarrow>
                 let q = chain (from_q TABLES_HEALTH_REPORTS)
                           [insert_q (Obj
                              [(''user_id'', Str (uid u)),
                               (''filename'',
                                  orElse (getProp metadata ''filename'') (Str (file_name file))),
                               (''original_filename'', Str (file_name file)),
                               (''file_path'', Str fileName),
                               (''file_url'', Str (publicUrlOf fileName)),
                               (''file_size'', Num (file_size file)),
                               (''file_type'', Str (file_type file)),
                               (''document_type'', getProp metadata ''type''),
                               (''notes'', getProp metadata ''notes''),
                               (''created_at'', Str nowISO)]),
                            select_q, single_q];
                     r = backend (Query q)
                 in case reply_error r of
                      Some dbError \<Rightarrow>
                        (Envelope Null (Some dbError),
                         [upload, Query q,
                          StorageRemove STORAGE_BUCKETS_HEALTH_REPORTS [Str fileName]])
                    | None \<Rightarrow> (Envelope (reply_data r) None, [upload, Query q]))"

definition getHealthReports :: "auth_user option \<Rightarrow> backend \<Rightarrow> jsval \<Rightarrow> api_result \<times> request list" where
  "getHealthReports user backend filters =
     (case user of
        None \<Rightarrow> (Rejected notAuthenticated, [])
      | Some u \<Rightarrow>
          rowsOf backend
            (chain (from_q TABLES_HEALTH_REPORTS)
               [select_q, eq_q ''user_id'' (Str (uid u)), order_q ''created_at'' False,
                when_q (getProp filters ''type'') (eq_q ''document_type'' (getProp filters ''type'')),
                when_q (getProp filters ''limit'') (limit_q (getProp filters ''limit''))]))"

text \<open>
  \<open>deleteHealthReport\<close>: read the report, remove its file (a failure there is logged only),
  delete the row. The file path is read from the row the store returned.
\<close>

definition deleteHealthReport :: "auth_user option \<Rightarrow> backend \<Rightarrow> jsval \<Rightarrow> api_result \<times> request list" where
  "deleteHealthReport user backend reportId =
     (case user of
        None \<Rightarrow> (ErrorOnly (Some notAuthenticated), [])
      | Some u \<Rightarrow>
          let lookup = Query (chain (from_q TABLES_HEALTH_REPORTS)
                         [select_q, eq_q ''id'' reportId, eq_q ''user_id'' (Str (uid u)),
                          single_q]);
              found = backend lookup
          in case reply_error found of
               Some fetchError \<Rightarrow> (ErrorOnly (Some fetchError), [lookup])
             | None \<Rightarrow>
                 let removal = StorageRemove STORAGE_BUCKETS_HEALTH_REPORTS
                                 [getProp (reply_data found) ''file_path''];
                     deletion = Query (chain (from_q TABLES_HEALTH_REPORTS)
                                  [delete_q, eq_q ''id'' reportId,
                                   eq_q ''user_id'' (Str (uid u))])
                 in case reply_error (backend deletion) of
                      Some dbError \<Rightarrow> (ErrorOnly (Some dbError), [lookup, removal, deletion])
                    | None \<Rightarrow> (ErrorOnly None, [lookup, removal, deletion]))"

definition bookAppointment ::
  "auth_user option \<Rightarrow> string \<Rightarrow> backend \<Rightarrow> jsval \<Rightarrow> api_result \<times> request list" where
  "bookAppointment user nowISO backend appointmentData =
     (case user of
        None \<Rightarrow> (Envelope Null (Some notAuthenticated), [])
      | Some u \<Rightarrow>
          envelopeOf backend
            (chain (from_q TABLES_APPOINTMENTS)
               [insert_q (Obj
                  [(''user_id'', Str (uid u)),
                   (''doctor_id'', getProp appointmentData ''doctor''),
                   (''appointment_type'', getProp appointmentData ''type''),
                   (''appointment_date'', getProp appointmentData ''date''),
                   (''appointment_time'', getProp appointmentData ''time''),
                   (''reason'', getProp appointmentData ''reason''),
                   (''priority'', getProp appointmentData ''priority''),
                   (''status'', Str ''pending''),
                   (''created_at'', Str nowISO)]),
                select_q, single_q]))"

text \<open>\<open>new Date().toISOString().split('T')[0]\<close>\<close>

definition today :: "string \<Rightarrow> string" where
  "today nowISO = takeWhile (\<lambda>c. c \<noteq> CHR ''T'') nowISO"

definition getAppointments ::
  "auth_user option \<Rightarrow> string \<Rightarrow> backend \<Rightarrow> jsval \<Rightarrow> api_result \<times> request list" where
  "getAppointments user nowISO backend filters =
     (case user of
        None \<Rightarrow> (Rejected notAuthenticated, [])
      | Some u \<Rightarrow>
          rowsOf backend
            (chain (from_q TABLES_APPOINTMENTS)
               [select_q, eq_q ''user_id'' (Str (uid u)),
                order_q ''appointment_date'' True, order_q ''appointment_time'' True,
                when_q (getProp filters ''status'') (eq_q ''status'' (getProp filters ''status'')),
                when_q (getProp filters ''upcoming'') (gte_q ''appointment_date'' (Str (today nowISO))),
                when_q (getProp filters ''past'') (lt_q ''appointment_date'' (Str (today nowISO)))]))"

definition cancelAppointment ::
  "auth_user option \<Rightarrow> string \<Rightarrow> backend \<Rightarrow> jsval \<Rightarrow> api_result \<times> request list" where
  "cancelAppointment user nowISO backend appointmentId =
     (case user of
        None \<Rightarrow> (Envelope Null (Some notAuthenticated), [])
      | Some u \<Rightarrow>
          envelopeOf backend
            (chain (from_q TABLES_APPOINTMENTS)
               [update_q (Obj [(''status'', Str ''cancelled''), (''cancelled_at'', Str nowISO)]),
                eq_q ''id'' appointmentId, eq_q ''user_id'' (Str (uid u)),
                select_q, single_q]))"

definition rescheduleAppointment ::
  "auth_user option \<Rightarrow> string \<Rightarrow> backend \<Rightarrow> jsval \<Rightarrow> jsval \<Rightarrow> api_result \<times> request list" where
  "rescheduleAppointment user nowISO backend appointmentId newDateTime =
     (case user of
        None \<Rightarrow> (Envelope Null (Some notAuthenticated), [])
      | Some u \<Rightarrow>
          envelopeOf backend
            (chain (from_q TABLES_APPOINTMENTS)
               [update_q (Obj [(''appointment_date'', getProp newDateTime ''date''),
                               (''appointment_time'', getProp newDateTime ''time''),
                               (''updated_at'', Str nowISO)]),
                eq_q ''id'' appointmentId, eq_q ''user_id'' (Str (uid u)),
                select_q, single_q]))"

definition logSymptom ::
  "auth_user option \<Rightarrow> string \<Rightarrow> backend \<Rightarrow> jsval \<Rightarrow> api_result \<times> request list" where
  "logSymptom user nowISO backend symptomData =
     (case user of
        None \<Rightarrow> (Envelope Null (Some notAuthenticated), [])
      | Some u \<Rightarrow>
          envelopeOf backend
            (chain (from_q TABLES_SYMPTOMS)
               [insert_q (Obj
                  [(''user_id'', Str (uid u)),
                   (''symptom_type'', getProp symptomData ''type''),
                   (''severity'', getProp symptomData ''severity''),
                   (''triggers'', orElse (getProp symptomData ''triggers'') (Arr [])),
                   (''medications_used'', orElse (getProp symptomData ''medications'') (Arr [])),
                   (''notes'', getProp symptomData ''notes''),
                   (''recorded_at'', orElse (getProp symptomData ''timestamp'') (Str nowISO))]),
                select_q, single_q]))"

definition getSymptomHistory :: "auth_user option \<Rightarrow> backend \<Rightarrow> jsval \<Rightarrow> api_result \<times> request list" where
  "getSymptomHistory user backend filters =
     (case user of
        None \<Rightarrow> (Rejected notAuthenticated, [])
      | Some u \<Rightarrow>
          rowsOf backend
            (chain (from_q TABLES_SYMPTOMS)
               [select_q, eq_q ''user_id'' (Str (uid u)), order_q ''recorded_at'' False,
                when_q (getProp filters ''startDate'') (gte_q ''recorded_at'' (getProp filters ''startDate'')),
                when_q (getProp filters ''endDate'') (lte_q ''recorded_at'' (getProp filters ''endDate'')),
                when_q (getProp filters ''limit'') (limit_q (getProp filters ''limit''))]))"

definition logMedicationUsage ::
  "auth_user option \<Rightarrow> string \<Rightarrow> backend \<Rightarrow> jsval \<Rightarrow> api_result \<times> request list" where
  "logMedicationUsage user nowISO backend medicationData =
     (case user of
        None \<Rightarrow> (Envelope Null (Some notAuthenticated), [])
      | Some u \<Rightarrow>
          envelopeOf backend
            (chain (from_q TABLES_MEDICATIONS)
               [insert_q (Obj
                  [(''user_id'', Str (uid u)),
                   (''medication_name'', getProp medicationData ''name''),
                   (''dosage'', getProp medicationData ''dosage''),
                   (''medication_type'', getProp medicationData ''type''),
                   (''taken_at'', orElse (getProp medicationData ''timestamp'') (Str nowISO)),
                   (''notes'', getProp medicationData ''notes'')]),
                select_q, single_q]))"

definition getMedicationHistory :: "auth_user option \<Rightarrow> backend \<Rightarrow> jsval \<Rightarrow> api_result \<times> request list" where
  "getMedicationHistory user backend filters =
     (case user of
        None \<Rightarrow> (Rejected notAuthenticated, [])
      | Some u \<Rightarrow>
          rowsOf backend
            (chain (from_q TABLES_MEDICATIONS)
               [select_q, eq_q ''user_id'' (Str (uid u)), order_q ''taken_at'' False,
                when_q (getProp filters ''limit'') (limit_q (getProp filters ''limit''))]))"

definition addEmergencyContact ::
  "auth_user option \<Rightarrow> string \<Rightarrow> backend \<Rightarrow> jsval \<Rightarrow> api_result \<times> request list" where
  "addEmergencyContact user nowISO backend contactData =
     (case user of
        None \<Rightarrow> (Envelope Null (Some notAuthenticated), [])
      | Some u \<Rightarrow>
          envelopeOf backend
            (chain (from_q TABLES_EMERGENCY_CONTACTS)
               [insert_q (Obj
                  [(''user_id'', Str (uid u)),
                   (''name'', getProp contactData ''name''),
                   (''relationship'', getProp contactData ''relationship''),
                   (''phone_number'', getProp contactData ''phone''),
                   (''email'', getProp contactData ''email''),
                   (''is_primary'', orElse (getProp contactData ''isPrimary'') (JBool False)),
                   (''created_at'', Str nowISO)]),
                select_q, single_q]))"

definition getEmergencyContacts :: "auth_user option \<Rightarrow> backend \<Rightarrow> api_result \<times> request list" where
  "getEmergencyContacts user backend =
     (case user of
        None \<Rightarrow> (Rejected notAuthenticated, [])
      | Some u \<Rightarrow>
          rowsOf backend
            (chain (from_q TABLES_EMERGENCY_CONTACTS)
               [select_q, eq_q ''user_id'' (Str (uid u)),
                order_q ''is_primary'' False, order_q ''name'' True]))"

text \<open>
  \<open>exportUserData\<close>: seven reads of the user's rows, whose error fields are not looked at,
  gathered into the backup object.
\<close>

definition ownRows :: "auth_user \<Rightarrow> string \<Rightarrow> request" where
  "ownRows u t = Query (chain (from_q t) [select_q, eq_q ''user_id'' (Str (uid u))])"

definition exportUserData ::
  "auth_user option \<Rightarrow> string \<Rightarrow> backend \<Rightarrow> api_result \<times> request list" where
  "exportUserData user nowISO backend =
     (case user of
        None \<Rightarrow> (Envelope Null (Some notAuthenticated), [])
      | Some u \<Rightarrow>
          let profile = Query (chain (from_q ''user_profiles'')
                          [select_q, eq_q ''user_id'' (Str (uid u)), single_q]);
              rowsOrEmpty = (\<lambda>t. orElse (reply_data (backend (ownRows u t))) (Arr []))
          in (Envelope (Obj
                [(''exportDate'', Str nowISO),
                 (''userId'', Str (uid u)),
                 (''profile'', reply_data (backend profile)),
                 (''healthReports'', rowsOrEmpty TABLES_HEALTH_REPORTS),
                 (''appointments'', rowsOrEmpty TABLES_APPOINTMENTS),
                 (''symptoms'', rowsOrEmpty TABLES_SYMPTOMS),
                 (''medications'', rowsOrEmpty TABLES_MEDICATIONS),
                 (''emergencyContacts'', rowsOrEmpty TABLES_EMERGENCY_CONTACTS),
                 (''chatHistory'', rowsOrEmpty TABLES_CHAT_HISTORY)]) None,
              [profile, ownRows u TABLES_HEALTH_REPORTS, ownRows u TABLES_APPOINTMENTS,
               ownRows u TABLES_SYMPTOMS, ownRows u TABLES_MEDICATIONS,
               ownRows u TABLES_EMERGENCY_CONTACTS, ownRows u TABLES_CHAT_HISTORY]))"

text \<open>
  The Unauthenticated condition: the error \<open>User not authenticated\<close>, in the error field of
  the result or thrown.
\<close>

definition unauthenticated :: "api_result \<Rightarrow> bool" where
  "unauthenticated r =
     (case r of
        Envelope d e \<Rightarrow> d = Null \<and> e = Some notAuthenticated
      | ErrorOnly e \<Rightarrow> e = Some notAuthenticated
      | Value v \<Rightarrow> False
      | Rejected e \<Rightarrow> e = notAuthenticated)"


section \<open>Properties of the scoring function\<close>

lemma daysDiff_le_7: "daysDiff now s \<le> 7 \<longleftrightarrow> now - recorded_at s \<le> sevenDaysMs"
proof -
  have "daysDiff now s \<le> 7 \<longleftrightarrow> real_of_int (now - recorded_at s) \<le> 7 * 86400000"
    by (simp add: daysDiff_def field_simps)
  also have "\<dots> \<longleftrightarrow> real_of_int (now - recorded_at s) \<le> real_of_int 604800000"
    by simp
  also have "\<dots> \<longleftrightarrow> now - recorded_at s \<le> 604800000"
    by (simp only: of_int_le_iff)
  finally show ?thesis by (simp add: sevenDaysMs_def)
qed

lemma recentSymptoms_window:
  "recentSymptoms now symptoms = filter (\<lambda>s. now - recorded_at s \<le> sevenDaysMs) symptoms"
  by (simp add: recentSymptoms_def daysDiff_le_7)

lemma deductPoints_sum:
  "deductPoints recent start = start - (\<Sum>s\<leftarrow>recent. severity s * 5)"
  unfolding deductPoints_def
  by (induction recent arbitrary: start) simp_all

text \<open>
  C1. For a non-empty symptom list the function takes \<open>severity * 5\<close> points off 100 for
  each entry whose age is at most seven days, returns that total (clamped below at 0) as the
  score, and classifies it: at least 80 is well controlled, from 60 to 79 partly controlled,
  below 60 poorly controlled.
\<close>

theorem calculateAsthmaControlScore_deducts_and_classifies:
  assumes "symptoms \<noteq> []"
  shows "score (calculateAsthmaControlScore now symptoms medications)
           = max 0 (100 - (\<Sum>s\<leftarrow>filter (\<lambda>s. now - recorded_at s \<le> sevenDaysMs) symptoms.
                              severity s * 5))
       \<and> level (calculateAsthmaControlScore now symptoms medications)
           = classify (100 - (\<Sum>s\<leftarrow>filter (\<lambda>s. now - recorded_at s \<le> sevenDaysMs) symptoms.
                                severity s * 5))
       \<and> level (calculateAsthmaControlScore now symptoms medications)
           = classify (score (calculateAsthmaControlScore now symptoms medications))"
proof -
  define deducted where
    "deducted = 100 - (\<Sum>s\<leftarrow>filter (\<lambda>s. now - recorded_at s \<le> sevenDaysMs) symptoms.
                          severity s * 5)"
  define r where "r = calculateAsthmaControlScore now symptoms medications"
  have total: "deductPoints (recentSymptoms now symptoms) 100 = deducted"
    by (simp add: deductPoints_sum recentSymptoms_window deducted_def)
  have sc: "score r = max 0 deducted" and lv: "level r = classify deducted"
    using assms unfolding r_def calculateAsthmaControlScore_def
    by (simp_all add: total Let_def classify_def)
  have "classify (max 0 deducted) = classify deducted"
    by (simp add: classify_def max_def)
  with sc lv have "level r = classify (score r)" by simp
  with sc lv show ?thesis unfolding r_def deducted_def by simp
qed

theorem calculateAsthmaControlScore_examples:
  "calculateAsthmaControlScore 1000 [\<lparr>severity = 5, recorded_at = 1000\<rparr>] []
     = \<lparr>score = 75, level = ''Partly Controlled'',
        recommendations = [''Review medication adherence'',
                           ''Identify and avoid triggers'',
                           ''Consider adjusting treatment plan with doctor'']\<rparr>
   \<and> [\<lparr>severity = 5, recorded_at = 1000\<rparr>, \<lparr>severity = 4, recorded_at = 0\<rparr>] \<noteq> []
   \<and> score (calculateAsthmaControlScore 1000
        [\<lparr>severity = 5, recorded_at = 1000\<rparr>, \<lparr>severity = 4, recorded_at = 0\<rparr>] []) = 55
   \<and> level (calculateAsthmaControlScore 1000
        [\<lparr>severity = 5, recorded_at = 1000\<rparr>, \<lparr>severity = 4, recorded_at = 0\<rparr>] [])
       = ''Poorly Controlled''"
proof -
  let ?one = "[\<lparr>severity = 5, recorded_at = 1000\<rparr>]"
  let ?two = "[\<lparr>severity = 5, recorded_at = 1000\<rparr>, \<lparr>severity = 4, recorded_at = 0\<rparr>]"
  have one: "calculateAsthmaControlScore 1000 ?one []
     = \<lparr>score = 75, level = ''Partly Controlled'',
        recommendations = [''Review medication adherence'',
                           ''Identify and avoid triggers'',
                           ''Consider adjusting treatment plan with doctor'']\<rparr>"
    by (simp add: calculateAsthmaControlScore_def recentSymptoms_window deductPoints_sum
        sevenDaysMs_def)
  have ne: "?two \<noteq> []" by simp
  have two: "score (calculateAsthmaControlScore 1000 ?two []) = 55
      \<and> level (calculateAsthmaControlScore 1000 ?two []) = ''Poorly Controlled''"
    using calculateAsthmaControlScore_deducts_and_classifies [OF ne, of 1000 "[]"]
    by (simp add: sevenDaysMs_def classify_def)
  from one ne two show ?thesis by simp
qed

text \<open>
  C4 (as the code has it). A non-empty symptom list whose entries are all strictly older than
  seven days gives score 100 and level Well Controlled with the three-item recommendation
  list of the well-controlled branch; the two-item list is returned for the empty list only.
\<close>

theorem calculateAsthmaControlScore_all_old:
  assumes "symptoms \<noteq> []"
    and "\<forall>s \<in> set symptoms. sevenDaysMs < now - recorded_at s"
  shows "calculateAsthmaControlScore now symptoms medications
           = \<lparr>score = 100, level = ''Well Controlled'',
              recommendations = [''Continue current management plan'',
                                 ''Monitor for any changes in symptoms'',
                                 ''Regular check-ups with healthcare provider'']\<rparr>"
proof -
  have "filter (\<lambda>s. now - recorded_at s \<le> sevenDaysMs) symptoms = []"
    using assms(2) by (auto simp: filter_empty_conv)
  then have "deductPoints (recentSymptoms now symptoms) 100 = 100"
    by (simp add: recentSymptoms_window deductPoints_sum)
  with assms(1) show ?thesis
    by (simp add: calculateAsthmaControlScore_def)
qed

theorem calculateAsthmaControlScore_all_old_witness:
  "[\<lparr>severity = 3, recorded_at = 0\<rparr>] \<noteq> []
   \<and> sevenDaysMs < 691200000 - recorded_at \<lparr>severity = 3, recorded_at = 0\<rparr>
   \<and> calculateAsthmaControlScore 691200000 [\<lparr>severity = 3, recorded_at = 0\<rparr>] []
       = \<lparr>score = 100, level = ''Well Controlled'',
          recommendations = [''Continue current management plan'',
                             ''Monitor for any changes in symptoms'',
                             ''Regular check-ups with healthcare provider'']\<rparr>"
proof -
  have ne: "[\<lparr>severity = 3, recorded_at = 0\<rparr>] \<noteq> []" by simp
  have old: "\<forall>s \<in> set [\<lparr>severity = 3, recorded_at = 0\<rparr>]. sevenDaysMs < 691200000 - recorded_at s"
    by (simp add: sevenDaysMs_def)
  from calculateAsthmaControlScore_all_old [OF ne old, of "[]"] ne old show ?thesis
    by simp
qed

text \<open>
  C4 as stated fails: one entry of eight days ago does not give the result of the empty
  input, since the recommendation lists differ (three items against two).
\<close>

theorem calculateAsthmaControlScore_all_old_counterexample:
  "sevenDaysMs < 691200000 - recorded_at \<lparr>severity = 3, recorded_at = 0\<rparr>
   \<and> calculateAsthmaControlScore 691200000 [\<lparr>severity = 3, recorded_at = 0\<rparr>] []
       \<noteq> calculateAsthmaControlScore 691200000 [] []
   \<and> length (recommendations
         (calculateAsthmaControlScore 691200000 [\<lparr>severity = 3, recorded_at = 0\<rparr>] [])) = 3
   \<and> length (recommendations (calculateAsthmaControlScore 691200000 [] [])) = 2"
  by (simp add: calculateAsthmaControlScore_def recentSymptoms_window deductPoints_sum
      sevenDaysMs_def)

text \<open>
  C6. The returned score is never negative; ten entries of severity 5 inside the window give
  score 0.
\<close>

theorem calculateAsthmaControlScore_nonnegative:
  "0 \<le> score (calculateAsthmaControlScore now symptoms medications)
   \<and> score (calculateAsthmaControlScore now
         (replicate 10 \<lparr>severity = 5, recorded_at = now\<rparr>) medications) = 0"
proof -
  have "0 \<le> score (calculateAsthmaControlScore now symptoms medications)"
    by (simp add: calculateAsthmaControlScore_def Let_def)
  moreover have "deductPoints (recentSymptoms now
      (replicate 10 \<lparr>severity = 5, recorded_at = now\<rparr>)) 100 = - 150"
    by (simp add: recentSymptoms_window deductPoints_sum sevenDaysMs_def sum_list_replicate)
  then have "score (calculateAsthmaControlScore now
      (replicate 10 \<lparr>severity = 5, recorded_at = now\<rparr>) medications) = 0"
    by (simp add: calculateAsthmaControlScore_def)
  ultimately show ?thesis by simp
qed

text \<open>
  C10. The \<open>medications\<close> argument has no effect on the result: any two values give the same
  score, level and recommendations.
\<close>

theorem calculateAsthmaControlScore_ignores_medications:
  "calculateAsthmaControlScore now symptoms medications1
     = calculateAsthmaControlScore now symptoms medications2"
  by (simp add: calculateAsthmaControlScore_def)

section \<open>Properties of the chat responder\<close>

lemma toLowerCase_append: "toLowerCase (a @ b) = toLowerCase a @ toLowerCase b"
  by (simp add: toLowerCase_def)

lemma includes_str_middle: "includes_str (a @ k @ b) k"
  by (simp add: includes_str_def sublist_appendI)

lemma simulateAIResponse_emergency:
  "includes_str (toLowerCase message) ''can't breathe''
     \<Longrightarrow> simulateAIResponse message = emergencyResponse"
  by (simp add: simulateAIResponse_def)

text \<open>
  C5. The responder lower-cases the message and answers with the fixed response of the first
  keyword group, in the fixed order with the emergency group first, one of whose keywords
  occurs in it, and with the default response when none does. In particular a message that
  contains "can't breathe" in any casing, between any other text, gets the emergency
  response.
\<close>

theorem simulateAIResponse_first_match:
  "simulateAIResponse message = respond_spec message
   \<and> (toLowerCase phrase = ''can't breathe''
        \<longrightarrow> simulateAIResponse (before @ phrase @ after) = emergencyResponse)"
proof
  show "simulateAIResponse message = respond_spec message"
    by (simp add: simulateAIResponse_def respond_spec_def keywordGroups_def)
next
  show "toLowerCase phrase = ''can't breathe''
        \<longrightarrow> simulateAIResponse (before @ phrase @ after) = emergencyResponse"
  proof
    assume low: "toLowerCase phrase = ''can't breathe''"
    have "toLowerCase (before @ phrase @ after)
            = toLowerCase before @ ''can't breathe'' @ toLowerCase after"
      by (simp only: toLowerCase_append low)
    then have "includes_str (toLowerCase (before @ phrase @ after)) ''can't breathe''"
      by (simp only: includes_str_middle)
    then show "simulateAIResponse (before @ phrase @ after) = emergencyResponse"
      by (rule simulateAIResponse_emergency)
  qed
qed

theorem simulateAIResponse_first_match_witness:
  "toLowerCase ''CAN'T Breathe'' = ''can't breathe''
   \<and> simulateAIResponse ''I CAN'T Breathe!'' = emergencyResponse
   \<and> simulateAIResponse ''I CAN'T Breathe!'' = respond_spec ''I CAN'T Breathe!''"
proof -
  have low: "toLowerCase ''CAN'T Breathe'' = ''can't breathe''"
    by code_simp
  have "simulateAIResponse (''I '' @ ''CAN'T Breathe'' @ ''!'') = emergencyResponse"
    using simulateAIResponse_first_match [of "''I CAN'T Breathe!''" "''CAN'T Breathe''" "''I ''" "''!''"] low
    by blast
  moreover have "simulateAIResponse ''I CAN'T Breathe!'' = respond_spec ''I CAN'T Breathe!''"
    using simulateAIResponse_first_match [of "''I CAN'T Breathe!''" "''CAN'T Breathe''" "''I ''" "''!''"]
    by blast
  ultimately show ?thesis using low by simp
qed

text \<open>
  C9. For a message and any two conversation contexts \<open>sendChatMessage\<close> returns the same
  response, which is the responder's answer to the message alone; the row it stores is the
  same too.
\<close>

theorem sendChatMessage_ignores_context:
  "sendChatMessage insert_ok now chat_history message context1
     = sendChatMessage insert_ok now chat_history message context2
   \<and> fst (sendChatMessage insert_ok now chat_history message context1)
       = simulateAIResponse message"
  by (simp add: sendChatMessage_def Let_def)


section \<open>Properties of the freshness cache\<close>

lemma isDataFresh_30: "isDataFresh now t 30 \<longleftrightarrow> now - t < thirtyMinutesMs"
proof -
  have "isDataFresh now t 30 \<longleftrightarrow> real_of_int (now - t) < real_of_int 1800000"
    by (simp add: isDataFresh_def field_simps)
  also have "\<dots> \<longleftrightarrow> now - t < 1800000"
    by (simp only: of_int_less_iff)
  finally show ?thesis by (simp add: thirtyMinutesMs_def)
qed

lemma checkAirQuality_fresh:
  assumes "getCachedAirQuality db_up table loc = Some e"
    and "now - cache_created_at e < thirtyMinutesMs"
  shows "checkAirQuality db_up now fetch table loc
           = \<lparr>returned = Inr (cache_data e), requests = [], table_after = table\<rparr>"
  using assms by (simp add: checkAirQuality_def isDataFresh_30)

lemma requests_airQualityFallback [simp]:
  "requests (airQualityFallback db_up table loc error) = [loc]"
  by (simp add: airQualityFallback_def split: option.split)

lemma requests_fetchFreshData [simp]:
  "requests (fetchFreshData db_up now fetch table loc) = [loc]"
  by (simp add: fetchFreshData_def split: fetch_outcome.split option.split)

lemma checkAirQuality_stale:
  assumes "getCachedAirQuality db_up table loc = Some e"
    and "\<not> now - cache_created_at e < thirtyMinutesMs"
  shows "checkAirQuality db_up now fetch table loc = fetchFreshData db_up now fetch table loc"
  using assms by (simp add: checkAirQuality_def isDataFresh_30)

lemma checkAirQuality_miss:
  assumes "getCachedAirQuality db_up table loc = None"
  shows "checkAirQuality db_up now fetch table loc = fetchFreshData db_up now fetch table loc"
  using assms by (simp add: checkAirQuality_def)

lemma fetchFreshData_fails:
  assumes "fetchFails (fetch loc)"
  shows "fetchFreshData db_up now fetch table loc
           = airQualityFallback db_up table loc (thrownByFetch (fetch loc))"
  using assms
  by (auto simp: fetchFreshData_def fetchFails_def thrownByFetch_def split: fetch_outcome.splits)

text \<open>
  C2. When the lookup finds a cached row for the location, \<open>checkAirQuality\<close> returns the
  row's payload without a request to the air-quality API exactly when the row is younger
  than 30 minutes; otherwise it makes the request. A row stored at time T is served from the
  cache at T + 29 minutes and causes a request at T + 31 minutes.
\<close>

theorem checkAirQuality_cached_iff_fresh:
  assumes "getCachedAirQuality db_up table loc = Some e"
  shows "((returned (checkAirQuality db_up now fetch table loc) = Inr (cache_data e)
            \<and> requests (checkAirQuality db_up now fetch table loc) = [])
           \<longleftrightarrow> now - cache_created_at e < thirtyMinutesMs)
       \<and> requests (checkAirQuality db_up now fetch table loc)
           = (if now - cache_created_at e < thirtyMinutesMs then [] else [loc])"
proof (cases "now - cache_created_at e < thirtyMinutesMs")
  case True
  with checkAirQuality_fresh [OF assms] show ?thesis by simp
next
  case False
  with checkAirQuality_stale [OF assms] show ?thesis by simp
qed

theorem checkAirQuality_cached_iff_fresh_witness:
  "getCachedAirQuality True (cacheAirQuality True 0 [] ''London'' (42::nat)) ''London''
     = Some \<lparr>location = ''london'', cache_data = 42, cache_created_at = 0\<rparr>
   \<and> returned (checkAirQuality True (29 * 60000) (\<lambda>_. FetchRejected)
         (cacheAirQuality True 0 [] ''London'' (42::nat)) ''London'') = Inr 42
   \<and> requests (checkAirQuality True (29 * 60000) (\<lambda>_. FetchRejected)
         (cacheAirQuality True 0 [] ''London'' (42::nat)) ''London'') = []
   \<and> requests (checkAirQuality True (31 * 60000) (\<lambda>_. FetchRejected)
         (cacheAirQuality True 0 [] ''London'' (42::nat)) ''London'') = [''London'']"
proof -
  let ?table = "cacheAirQuality True 0 [] ''London'' (42::nat)"
  let ?e = "\<lparr>location = ''london'', cache_data = 42::nat, cache_created_at = 0\<rparr>"
  have low: "toLowerCase ''London'' = ''london''"
    by code_simp
  have hit: "getCachedAirQuality True ?table ''London'' = Some ?e"
    by (simp add: getCachedAirQuality_def selectLatest_def cacheAirQuality_def low)
  from checkAirQuality_cached_iff_fresh [OF hit, of "29 * 60000" "\<lambda>_. FetchRejected"]
       checkAirQuality_cached_iff_fresh [OF hit, of "31 * 60000" "\<lambda>_. FetchRejected"]
       hit
  show ?thesis
    by (simp add: thirtyMinutesMs_def)
qed

text \<open>
  C3. When the fetch for a location fails, \<open>checkAirQuality\<close> returns the payload of the
  cached row the lookup finds, whatever its age; when the lookup finds none, the error of
  the fetch is thrown to the caller.
\<close>

theorem checkAirQuality_fetch_failure:
  assumes "fetchFails (fetch loc)"
  shows "(getCachedAirQuality db_up table loc = Some e
            \<longrightarrow> returned (checkAirQuality db_up now fetch table loc) = Inr (cache_data e))
       \<and> (getCachedAirQuality db_up table loc = None
            \<longrightarrow> returned (checkAirQuality db_up now fetch table loc)
                  = Inl (thrownByFetch (fetch loc)))"
proof -
  have failed: "fetchFreshData db_up now fetch table loc
                  = airQualityFallback db_up table loc (thrownByFetch (fetch loc))"
    using assms by (rule fetchFreshData_fails)
  have cached: "returned (checkAirQuality db_up now fetch table loc) = Inr (cache_data e)"
    if hit: "getCachedAirQuality db_up table loc = Some e"
  proof (cases "now - cache_created_at e < thirtyMinutesMs")
    case True
    with checkAirQuality_fresh [OF hit] show ?thesis by simp
  next
    case False
    with checkAirQuality_stale [OF hit] failed hit show ?thesis
      by (simp add: airQualityFallback_def)
  qed
  have propagated: "returned (checkAirQuality db_up now fetch table loc)
                      = Inl (thrownByFetch (fetch loc))"
    if miss: "getCachedAirQuality db_up table loc = None"
    using checkAirQuality_miss [OF miss] failed miss
    by (simp add: airQualityFallback_def)
  from cached propagated show ?thesis by blast
qed

theorem checkAirQuality_fetch_failure_witness:
  "fetchFails ((\<lambda>_. Responded \<lparr>ok = False, status = 503, json = (None :: nat option)\<rparr>)
                ''Paris'')
   \<and> returned (checkAirQuality True (10 * 86400000)
         (\<lambda>_. Responded \<lparr>ok = False, status = 503, json = None\<rparr>)
         [\<lparr>location = ''paris'', cache_data = 7::nat, cache_created_at = 0\<rparr>] ''Paris'') = Inr 7
   \<and> returned (checkAirQuality True (10 * 86400000)
         (\<lambda>_. Responded \<lparr>ok = False, status = 503, json = None\<rparr>)
         ([] :: nat cache_row list) ''Paris'') = Inl (AirQualityApiError 503)"
proof -
  let ?fetch = "(\<lambda>_. Responded \<lparr>ok = False, status = 503, json = None\<rparr>)
                  :: string \<Rightarrow> nat fetch_outcome"
  let ?e = "\<lparr>location = ''paris'', cache_data = 7::nat, cache_created_at = 0\<rparr>"
  have low: "toLowerCase ''Paris'' = ''paris''"
    by code_simp
  have fails: "fetchFails (?fetch ''Paris'')"
    by (simp add: fetchFails_def)
  have hit: "getCachedAirQuality True [?e] ''Paris'' = Some ?e"
    by (simp add: getCachedAirQuality_def selectLatest_def low)
  have miss: "getCachedAirQuality True ([] :: nat cache_row list) ''Paris'' = None"
    by (simp add: getCachedAirQuality_def selectLatest_def)
  from checkAirQuality_fetch_failure [where fetch = ?fetch and loc = "''Paris''"
         and db_up = True and table = "[?e]" and e = ?e and now = "10 * 86400000"]
       checkAirQuality_fetch_failure [where fetch = ?fetch and loc = "''Paris''"
         and db_up = True and table = "[]" and e = ?e and now = "10 * 86400000"]
       hit miss fails
  show ?thesis
    by (simp add: thrownByFetch_def)
qed

section \<open>Properties of the auth facade\<close>

lemma step_flags:
  "initialized (step a m) = initialized m \<and> listening (step a m) = listening m"
  by (cases a)
     (simp_all add: onAuthStateChange_def removeAuthStateCallback_def deliver_def
        authStateListener_def Let_def)

lemma run_flags:
  "initialized (run history m) = initialized m \<and> listening (run history m) = listening m"
  unfolding run_def
  by (induction history arbitrary: m) (simp_all add: step_flags)

lemma init_listening:
  "\<not> initialized m0 \<Longrightarrow> initialized (init outcome m0) \<Longrightarrow> listening (init outcome m0)"
  by (cases outcome) (simp_all add: init_def subscribeAndFinish_def)

lemma established_listening:
  assumes "initialized (run later (init outcome (run early newAuthManager)))"
  shows "listening (run later (init outcome (run early newAuthManager)))"
proof -
  have "\<not> initialized (run early newAuthManager)"
    by (simp add: run_flags newAuthManager_def)
  moreover have "initialized (init outcome (run early newAuthManager))"
    using assms by (simp add: run_flags)
  ultimately have "listening (init outcome (run early newAuthManager))"
    by (rule init_listening)
  then show ?thesis by (simp add: run_flags)
qed

text \<open>
  C7. In a manager that \<open>init\<close> has initialised, whatever was registered or removed
  before \<open>init\<close> finished and whatever registrations, removals and events came after,
  registering a callback calls it at once, exactly once, with the current user and the event
  name INITIAL_SESSION; the next event the identity provider emits calls every registered
  callback, the new one included, with the new user and that event.
\<close>

theorem onAuthStateChange_replays_then_notifies:
  assumes "m = run later (init outcome (run early newAuthManager))"
    and "initialized m"
  shows "invocations (snd (onAuthStateChange callback m))
           = invocations m @ [(callback, currentUser m, ''INITIAL_SESSION'')]
       \<and> invocations (deliver event session (snd (onAuthStateChange callback m)))
           = invocations (snd (onAuthStateChange callback m))
             @ map (\<lambda>c. (c, userOf session, event)) (authCallbacks m @ [callback])"
proof -
  have lis: "listening m"
    using assms established_listening by simp
  have first: "invocations (snd (onAuthStateChange callback m))
           = invocations m @ [(callback, currentUser m, ''INITIAL_SESSION'')]"
    using assms(2) by (simp add: onAuthStateChange_def Let_def)
  have "listening (snd (onAuthStateChange callback m))"
    and "authCallbacks (snd (onAuthStateChange callback m)) = authCallbacks m @ [callback]"
    using lis by (simp_all add: onAuthStateChange_def Let_def)
  then have "invocations (deliver event session (snd (onAuthStateChange callback m)))
           = invocations (snd (onAuthStateChange callback m))
             @ map (\<lambda>c. (c, userOf session, event)) (authCallbacks m @ [callback])"
    by (simp add: deliver_def authStateListener_def Let_def)
  with first show ?thesis by simp
qed

theorem onAuthStateChange_replays_then_notifies_witness:
  "initialized (run [Emit ''SIGNED_OUT'' None]
      (init (GetSessionData (Some \<lparr>session_user = \<lparr>uid = ''u1'', email = ''a@b.c''\<rparr>,
                                    access_token = ''t''\<rparr>)) (run [] newAuthManager)))
   \<and> invocations (deliver ''SIGNED_IN''
        (Some \<lparr>session_user = \<lparr>uid = ''u1'', email = ''a@b.c''\<rparr>, access_token = ''t''\<rparr>)
        (snd (onAuthStateChange \<lparr>cb_name = ''navbar'', cb_throws = False\<rparr>
           (run [Emit ''SIGNED_OUT'' None]
              (init (GetSessionData (Some \<lparr>session_user = \<lparr>uid = ''u1'', email = ''a@b.c''\<rparr>,
                                            access_token = ''t''\<rparr>)) (run [] newAuthManager))))))
       = [(\<lparr>cb_name = ''navbar'', cb_throws = False\<rparr>, None, ''INITIAL_SESSION''),
          (\<lparr>cb_name = ''navbar'', cb_throws = False\<rparr>,
           Some \<lparr>uid = ''u1'', email = ''a@b.c''\<rparr>, ''SIGNED_IN'')]"
proof -
  let ?s = "Some \<lparr>session_user = \<lparr>uid = ''u1'', email = ''a@b.c''\<rparr>, access_token = ''t''\<rparr>"
  let ?m = "run [Emit ''SIGNED_OUT'' None] (init (GetSessionData ?s) (run [] newAuthManager))"
  let ?cb = "\<lparr>cb_name = ''navbar'', cb_throws = False\<rparr>"
  have ini: "initialized ?m"
    by (simp add: run_def deliver_def authStateListener_def init_def subscribeAndFinish_def
        newAuthManager_def)
  have m: "?m = \<lparr>currentUser = None, authCallbacks = [], initialized = True, listening = True,
                 invocations = []\<rparr>"
    by (simp add: run_def deliver_def authStateListener_def init_def subscribeAndFinish_def
        newAuthManager_def userOf_def)
  from onAuthStateChange_replays_then_notifies [OF refl ini, of ?cb "''SIGNED_IN''" ?s]
  have "invocations (deliver ''SIGNED_IN'' ?s (snd (onAuthStateChange ?cb ?m)))
          = (invocations ?m @ [(?cb, currentUser ?m, ''INITIAL_SESSION'')])
            @ map (\<lambda>c. (c, userOf ?s, ''SIGNED_IN'')) (authCallbacks ?m @ [?cb])"
    by simp
  then have "invocations (deliver ''SIGNED_IN'' ?s (snd (onAuthStateChange ?cb ?m)))
          = [(?cb, None, ''INITIAL_SESSION''),
             (?cb, Some \<lparr>uid = ''u1'', email = ''a@b.c''\<rparr>, ''SIGNED_IN'')]"
    by (simp only: m) (simp add: userOf_def)
  with ini show ?thesis by simp
qed


section \<open>Properties of the record operations\<close>

lemma unauthenticated_results:
  "unauthenticated (Envelope Null (Some notAuthenticated))"
  "unauthenticated (ErrorOnly (Some notAuthenticated))"
  "unauthenticated (Rejected notAuthenticated)"
  "\<not> unauthenticated (Value v)"
  by (simp_all add: unauthenticated_def)

text \<open>
  C8 (as the code has it). With no current user, every record operation of api.js other
  than \<open>getChatHistory\<close> fails with the error \<open>User not authenticated\<close>, in the error field
  of its result or thrown, and sends nothing to the store; \<open>getChatHistory\<close> sends nothing
  to the store either and returns the empty list.
\<close>

theorem record_operations_without_user:
  "(unauthenticated (fst (uploadHealthReport None stamp rand nowISO publicUrlOf backend f metadata))
      \<and> snd (uploadHealthReport None stamp rand nowISO publicUrlOf backend f metadata) = [])
   \<and> (unauthenticated (fst (getHealthReports None backend filters))
      \<and> snd (getHealthReports None backend filters) = [])
   \<and> (unauthenticated (fst (deleteHealthReport None backend reportId))
      \<and> snd (deleteHealthReport None backend reportId) = [])
   \<and> (unauthenticated (fst (bookAppointment None nowISO backend appointmentData))
      \<and> snd (bookAppointment None nowISO backend appointmentData) = [])
   \<and> (unauthenticated (fst (getAppointments None nowISO backend filters))
      \<and> snd (getAppointments None nowISO backend filters) = [])
   \<and> (unauthenticated (fst (cancelAppointment None nowISO backend appointmentId))
      \<and> snd (cancelAppointment None nowISO backend appointmentId) = [])
   \<and> (unauthenticated (fst (rescheduleAppointment None nowISO backend appointmentId newDateTime))
      \<and> snd (rescheduleAppointment None nowISO backend appointmentId newDateTime) = [])
   \<and> (unauthenticated (fst (logSymptom None nowISO backend symptomData))
      \<and> snd (logSymptom None nowISO backend symptomData) = [])
   \<and> (unauthenticated (fst (getSymptomHistory None backend filters))
      \<and> snd (getSymptomHistory None backend filters) = [])
   \<and> (unauthenticated (fst (logMedicationUsage None nowISO backend medicationData))
      \<and> snd (logMedicationUsage None nowISO backend medicationData) = [])
   \<and> (unauthenticated (fst (getMedicationHistory None backend filters))
      \<and> snd (getMedicationHistory None backend filters) = [])
   \<and> (unauthenticated (fst (addEmergencyContact None nowISO backend contactData))
      \<and> snd (addEmergencyContact None nowISO backend contactData) = [])
   \<and> (unauthenticated (fst (getEmergencyContacts None backend))
      \<and> snd (getEmergencyContacts None backend) = [])
   \<and> (unauthenticated (fst (exportUserData None nowISO backend))
      \<and> snd (exportUserData None nowISO backend) = [])
   \<and> getChatHistory None backend limit = (Value (Arr []), [])"
proof -
  have files: "unauthenticated (fst (uploadHealthReport None stamp rand nowISO publicUrlOf backend f metadata))
      \<and> snd (uploadHealthReport None stamp rand nowISO publicUrlOf backend f metadata) = []"
    "unauthenticated (fst (getHealthReports None backend filters))
      \<and> snd (getHealthReports None backend filters) = []"
    "unauthenticated (fst (deleteHealthReport None backend reportId))
      \<and> snd (deleteHealthReport None backend reportId) = []"
    by (simp_all add: uploadHealthReport_def getHealthReports_def deleteHealthReport_def
        unauthenticated_results)
  have appointments: "unauthenticated (fst (bookAppointment None nowISO backend appointmentData))
      \<and> snd (bookAppointment None nowISO backend appointmentData) = []"
    "unauthenticated (fst (getAppointments None nowISO backend filters))
      \<and> snd (getAppointments None nowISO backend filters) = []"
    "unauthenticated (fst (cancelAppointment None nowISO backend appointmentId))
      \<and> snd (cancelAppointment None nowISO backend appointmentId) = []"
    "unauthenticated (fst (rescheduleAppointment None nowISO backend appointmentId newDateTime))
      \<and> snd (rescheduleAppointment None nowISO backend appointmentId newDateTime) = []"
    by (simp_all add: bookAppointment_def getAppointments_def cancelAppointment_def
        rescheduleAppointment_def unauthenticated_results)
  have tracking: "unauthenticated (fst (logSymptom None nowISO backend symptomData))
      \<and> snd (logSymptom None nowISO backend symptomData) = []"
    "unauthenticated (fst (getSymptomHistory None backend filters))
      \<and> snd (getSymptomHistory None backend filters) = []"
    "unauthenticated (fst (logMedicationUsage None nowISO backend medicationData))
      \<and> snd (logMedicationUsage None nowISO backend medicationData) = []"
    "unauthenticated (fst (getMedicationHistory None backend filters))
      \<and> snd (getMedicationHistory None backend filters) = []"
    by (simp_all add: logSymptom_def getSymptomHistory_def logMedicationUsage_def
        getMedicationHistory_def unauthenticated_results)
  have contacts: "unauthenticated (fst (addEmergencyContact None nowISO backend contactData))
      \<and> snd (addEmergencyContact None nowISO backend contactData) = []"
    "unauthenticated (fst (getEmergencyContacts None backend))
      \<and> snd (getEmergencyContacts None backend) = []"
    "unauthenticated (fst (exportUserData None nowISO backend))
      \<and> snd (exportUserData None nowISO backend) = []"
    by (simp_all add: addEmergencyContact_def getEmergencyContacts_def exportUserData_def
        unauthenticated_results)
  have chat: "getChatHistory None backend limit = (Value (Arr []), [])"
    by (simp add: getChatHistory_def)
  from files appointments tracking contacts chat show ?thesis
    by (intro conjI) (simp_all only:)
qed

theorem record_operations_without_user_witness:
  "fst (logSymptom None ''2024-01-01T00:00:00.000Z''
          (\<lambda>_. \<lparr>reply_data = Null, reply_error = None\<rparr>)
          (Obj [(''type'', Str ''wheeze''), (''severity'', Num 3)]))
     = Envelope Null (Some (JsError ''User not authenticated''))
   \<and> snd (logSymptom None ''2024-01-01T00:00:00.000Z''
          (\<lambda>_. \<lparr>reply_data = Null, reply_error = None\<rparr>)
          (Obj [(''type'', Str ''wheeze''), (''severity'', Num 3)])) = []
   \<and> unauthenticated (fst (logSymptom None ''2024-01-01T00:00:00.000Z''
          (\<lambda>_. \<lparr>reply_data = Null, reply_error = None\<rparr>)
          (Obj [(''type'', Str ''wheeze''), (''severity'', Num 3)])))"
proof -
  let ?backend = "\<lambda>_ :: request. \<lparr>reply_data = Null, reply_error = None\<rparr>"
  let ?data = "Obj [(''type'', Str ''wheeze''), (''severity'', Num 3)]"
  have "unauthenticated (fst (logSymptom None ''2024-01-01T00:00:00.000Z'' ?backend ?data))
      \<and> snd (logSymptom None ''2024-01-01T00:00:00.000Z'' ?backend ?data) = []"
    using record_operations_without_user
      [where nowISO = "''2024-01-01T00:00:00.000Z''" and backend = ?backend
         and symptomData = ?data]
    by blast
  moreover have "fst (logSymptom None ''2024-01-01T00:00:00.000Z'' ?backend ?data)
      = Envelope Null (Some (JsError ''User not authenticated''))"
    by (simp add: logSymptom_def notAuthenticated_def)
  ultimately show ?thesis by simp
qed

text \<open>
  C8 as stated fails for \<open>getChatHistory\<close>: with no current user it returns the empty list,
  which is not a failure with the Unauthenticated condition.
\<close>

theorem getChatHistory_without_user_counterexample:
  "getChatHistory None (\<lambda>_. \<lparr>reply_data = Null, reply_error = None\<rparr>) (Num 50)
     = (Value (Arr []), [])
   \<and> \<not> unauthenticated
         (fst (getChatHistory None (\<lambda>_. \<lparr>reply_data = Null, reply_error = None\<rparr>) (Num 50)))"
  by (simp add: getChatHistory_def unauthenticated_def)


end
